theory Spec2Isabelle
  imports Main "HOL-Library.AList"
begin

section \<open>Data model of \<^verbatim>\<open>ephemeris/run_data_managers.py\<close>\<close>

text \<open>
  The tool inputs of one data manager job: the Python dict that \<^verbatim>\<open>run_dm\<close> builds with
  \<^verbatim>\<open>inputs.update({key: value})\<close>, from parameter name to rendered string.  It is kept
  as an association list in insertion order; \<^verbatim>\<open>key in input_dict\<close> and
  \<^verbatim>\<open>input_dict.get(key)\<close> are \<open>map_of\<close>.
\<close>

type_synonym inputs = "(string \<times> string) list"

text \<open>
  What \<^verbatim>\<open>get_name_from_inputs\<close> and \<^verbatim>\<open>get_value_from_inputs\<close> return: a value of
  the dict, or Python's \<^verbatim>\<open>False\<close>.
\<close>

datatype entry = PyFalse | PyStr string

text \<open>Python truthiness (\<^verbatim>\<open>if value_entry:\<close>): \<^verbatim>\<open>False\<close> and the empty string are falsy.\<close>

fun truthy :: "entry \<Rightarrow> bool" where
  "truthy PyFalse = False"
| "truthy (PyStr s) = (s \<noteq> [])"

text \<open>The exceptions that the modelled code can raise or let through.\<close>

datatype error =
    UnboundLocalError
  | IndexError
  | ValueError
  | TypeError
  | TableDoesNotExist string
  | ColumnDoesNotExist string string
  | NotAllJobsSuccessful
  | RemoteError string
  | LibraryError string
  | UndefinedError
  | OutsideFragment

text \<open>
  A dispatched job as \<^verbatim>\<open>gi.tools.run_tool\<close> returns it: only
  \<^verbatim>\<open>job['outputs'][0]['id']\<close> and \<^verbatim>\<open>job['outputs'][0]['hid']\<close> are read.
\<close>

record job_output =
  dataset_id :: string
  hid :: int

record job =
  outputs :: "job_output list"

text \<open>A data table as \<^verbatim>\<open>show_data_table\<close> returns it.\<close>

record data_table =
  columns :: "string list"
  table_fields :: "string list list"

text \<open>
  Everything the program does to the outside world, in the order it happens: the calls to
  the Galaxy instance, \<^verbatim>\<open>time.sleep\<close> and the log records.
\<close>

datatype level = DEBUG | INFO | ERROR

datatype message =
    Number_of_dbkeys nat
  | Job_finished int string
  | Job_still_running int
  | Already_run string inputs
  | Dispatched_job int string inputs
  | Not_all_jobs_ignoring

datatype event =
    Get_genomes
  | Show_dataset string
  | Show_data_table string
  | Run_tool string inputs
  | Sleep nat
  | Log level message

text \<open>
  The Galaxy instance \<^verbatim>\<open>gi\<close> (bioblend) is not part of the repository.  It is a parameter:
  each remote call answers as a function of the whole interaction so far (the events before
  the call), so that dataset states can change between polls and tables between steps.  An
  answer \<open>Inl e\<close> is an exception raised by the call.
\<close>

record galaxy =
  get_genomes :: "event list \<Rightarrow> error + nat"
  show_dataset :: "event list \<Rightarrow> string \<Rightarrow> error + string"
  show_data_table :: "event list \<Rightarrow> string \<Rightarrow> error + data_table"
  run_tool :: "event list \<Rightarrow> string \<Rightarrow> inputs \<Rightarrow> error + job"

section \<open>The completion poller \<^verbatim>\<open>wait\<close>\<close>

text \<open>
  \<^verbatim>\<open>job['outputs'][0]\<close>: raises \<^verbatim>\<open>IndexError\<close> on an empty output list.
\<close>

definition first_output :: "job \<Rightarrow> error + job_output" where
  "first_output j = (case outputs j of [] \<Rightarrow> Inl IndexError | out # _ \<Rightarrow> Inr out)"

text \<open>
  The \<^verbatim>\<open>for job in job_list\<close> loop of one poll cycle (lines 50-63).  A job in state
  \<^verbatim>\<open>'ok'\<close> is appended to \<^verbatim>\<open>finished_jobs\<close>; the second \<^verbatim>\<open>if\<close> is not an
  \<^verbatim>\<open>elif\<close>, so its \<^verbatim>\<open>else\<close> branch (the debug record) also runs for a job in state
  \<^verbatim>\<open>'ok'\<close>; a job in state \<^verbatim>\<open>'error'\<close> is appended to \<^verbatim>\<open>failed_jobs\<close> and to
  \<^verbatim>\<open>finished_jobs\<close>.
\<close>

fun poll_jobs ::
  "galaxy \<Rightarrow> job list \<Rightarrow> job list \<Rightarrow> job list \<Rightarrow> event list
     \<Rightarrow> (error + job list \<times> job list) \<times> event list" where
  "poll_jobs gi [] finished_jobs failed_jobs tr = (Inr (finished_jobs, failed_jobs), tr)"
| "poll_jobs gi (j # rest) finished_jobs failed_jobs tr =
     (case first_output j of
        Inl e \<Rightarrow> (Inl e, tr)
      | Inr out \<Rightarrow>
          (case show_dataset gi tr (dataset_id out) of
             Inl e \<Rightarrow> (Inl e, tr @ [Show_dataset (dataset_id out)])
           | Inr state \<Rightarrow>
               (let job_id = hid out;
                    tr1 = tr @ [Show_dataset (dataset_id out)];
                    tr2 = (if state = ''ok'' then tr1 @ [Log INFO (Job_finished job_id state)] else tr1);
                    finished1 = (if state = ''ok'' then finished_jobs @ [j] else finished_jobs)
                in if state = ''error''
                   then poll_jobs gi rest (finished1 @ [j]) (failed_jobs @ [j])
                          (tr2 @ [Log ERROR (Job_finished job_id state)])
                   else poll_jobs gi rest finished1 failed_jobs
                          (tr2 @ [Log DEBUG (Job_still_running job_id)]))))"

text \<open>
  \<^verbatim>\<open>for finished_job in finished_jobs: job_list.remove(finished_job)\<close>:
  \<^verbatim>\<open>list.remove\<close> deletes the first equal element and raises \<^verbatim>\<open>ValueError\<close> when there
  is none.
\<close>

fun remove_jobs :: "job list \<Rightarrow> job list \<Rightarrow> error + job list" where
  "remove_jobs [] job_list = Inr job_list"
| "remove_jobs (finished_job # rest) job_list =
     (if finished_job \<in> set job_list then remove_jobs rest (remove1 finished_job job_list)
      else Inl ValueError)"

text \<open>
  The \<^verbatim>\<open>while bool(job_list)\<close> loop and the \<^verbatim>\<open>return\<close> after it.  The locals
  \<^verbatim>\<open>finished_jobs\<close> and \<^verbatim>\<open>failed_jobs\<close> are assigned only inside the loop body, at the
  start of every cycle: \<open>bound\<close> is \<open>None\<close> while they are unbound and holds their current
  values afterwards.  The loop has no bound on its cycles, so the result is an option:
  \<open>None\<close> is a poller that never returns.
\<close>

partial_function (option) wait_loop ::
  "galaxy \<Rightarrow> job list \<Rightarrow> (job list \<times> job list) option \<Rightarrow> event list
     \<Rightarrow> ((error + job list \<times> job list) \<times> event list) option" where
  "wait_loop gi job_list bound tr =
     (if job_list \<noteq> [] then
        (case poll_jobs gi job_list [] [] tr of
           (Inl e, tr1) \<Rightarrow> Some (Inl e, tr1)
         | (Inr (finished_jobs, failed_jobs), tr1) \<Rightarrow>
             (case remove_jobs finished_jobs job_list of
                Inl e \<Rightarrow> Some (Inl e, tr1)
              | Inr job_list1 \<Rightarrow>
                  wait_loop gi job_list1 (Some (finished_jobs, failed_jobs))
                    (if job_list1 \<noteq> [] then tr1 @ [Sleep 30] else tr1)))
      else
        (case bound of
           None \<Rightarrow> Some (Inl UnboundLocalError, tr)
         | Some (finished_jobs, failed_jobs) \<Rightarrow> Some (Inr (finished_jobs, failed_jobs), tr)))"

declare wait_loop.simps [code]

definition wait ::
  "galaxy \<Rightarrow> job list \<Rightarrow> event list \<Rightarrow> ((error + job list \<times> job list) \<times> event list) option" where
  "wait gi job_list tr = wait_loop gi job_list None tr"

section \<open>The idempotency checker\<close>

text \<open>
  \<^verbatim>\<open>list.index(x)\<close>: the position of the first element equal to \<open>x\<close>; Python raises
  \<^verbatim>\<open>ValueError\<close> when there is none.
\<close>

fun index :: "'a list \<Rightarrow> 'a \<Rightarrow> error + nat" where
  "index [] x = Inl ValueError"
| "index (y # ys) x =
     (if y = x then Inr 0 else (case index ys x of Inl e \<Rightarrow> Inl e | Inr i \<Rightarrow> Inr (Suc i)))"

text \<open>
  The \<^verbatim>\<open>for field in data_table_content.get('fields')\<close> loop (lines 85-88);
  \<^verbatim>\<open>field[column_index]\<close> raises \<^verbatim>\<open>IndexError\<close> on a row that is too short.
\<close>

fun fields_loop :: "string list list \<Rightarrow> nat \<Rightarrow> entry \<Rightarrow> error + bool" where
  "fields_loop [] column_index entry = Inr False"
| "fields_loop (field # rest) column_index entry =
     (if column_index < length field
      then (if PyStr (field ! column_index) = entry then Inr True
            else fields_loop rest column_index entry)
      else Inl IndexError)"

text \<open>
  \<^verbatim>\<open>data_table_entry_exists\<close> (lines 73-88).  Any exception of \<^verbatim>\<open>show_data_table\<close> is
  replaced by \<^verbatim>\<open>Exception('Table "%s" does not exist')\<close>.  The second handler catches
  \<^verbatim>\<open>IndexError\<close> only, and \<^verbatim>\<open>list.index\<close> raises \<^verbatim>\<open>ValueError\<close>, which passes
  through it.
\<close>

definition data_table_entry_exists ::
  "galaxy \<Rightarrow> string \<Rightarrow> entry \<Rightarrow> string \<Rightarrow> event list \<Rightarrow> (error + bool) \<times> event list" where
  "data_table_entry_exists tool_data_client data_table_name entry column tr =
     (case show_data_table tool_data_client tr data_table_name of
        Inl e \<Rightarrow> (Inl (TableDoesNotExist data_table_name), tr @ [Show_data_table data_table_name])
      | Inr data_table_content \<Rightarrow>
          (case index (columns data_table_content) column of
             Inl e \<Rightarrow>
               (Inl (if e = IndexError then ColumnDoesNotExist column data_table_name else e),
                tr @ [Show_data_table data_table_name])
           | Inr column_index \<Rightarrow>
               (fields_loop (table_fields data_table_content) column_index entry,
                tr @ [Show_data_table data_table_name])))"

text \<open>
  The \<^verbatim>\<open>for key in possible_keys\<close> loop shared by \<^verbatim>\<open>get_name_from_inputs\<close> and
  \<^verbatim>\<open>get_value_from_inputs\<close>: the value of the first key that is in the dict, else
  \<^verbatim>\<open>False\<close>.
\<close>

fun possible_keys_loop :: "string list \<Rightarrow> inputs \<Rightarrow> entry" where
  "possible_keys_loop [] input_dict = PyFalse"
| "possible_keys_loop (key # possible_keys) input_dict =
     (case map_of input_dict key of
        Some v \<Rightarrow> PyStr v
      | None \<Rightarrow> possible_keys_loop possible_keys input_dict)"

definition get_name_from_inputs :: "inputs \<Rightarrow> entry" where
  "get_name_from_inputs input_dict =
     possible_keys_loop [''name'', ''sequence_name''] input_dict"

definition get_value_from_inputs :: "inputs \<Rightarrow> entry" where
  "get_value_from_inputs input_dict =
     possible_keys_loop [''value'', ''sequence_id'', ''dbkey''] input_dict"

text \<open>The \<^verbatim>\<open>for data_table in data_tables\<close> loop (lines 121-129).\<close>

fun data_tables_loop ::
  "galaxy \<Rightarrow> string list \<Rightarrow> entry \<Rightarrow> entry \<Rightarrow> event list \<Rightarrow> (error + bool) \<times> event list" where
  "data_tables_loop tool_data_client [] value_entry name_entry tr = (Inr True, tr)"
| "data_tables_loop tool_data_client (data_table # rest) value_entry name_entry tr =
     (case (if truthy value_entry
            then data_table_entry_exists tool_data_client data_table value_entry ''value'' tr
            else (Inr True, tr)) of
        (Inl e, tr1) \<Rightarrow> (Inl e, tr1)
      | (Inr False, tr1) \<Rightarrow> (Inr False, tr1)
      | (Inr True, tr1) \<Rightarrow>
          (case (if truthy name_entry
                 then data_table_entry_exists tool_data_client data_table name_entry ''name'' tr1
                 else (Inr True, tr1)) of
             (Inl e, tr2) \<Rightarrow> (Inl e, tr2)
           | (Inr False, tr2) \<Rightarrow> (Inr False, tr2)
           | (Inr True, tr2) \<Rightarrow> data_tables_loop tool_data_client rest value_entry name_entry tr2))"

definition input_entries_exist_in_data_tables ::
  "galaxy \<Rightarrow> string list \<Rightarrow> inputs \<Rightarrow> event list \<Rightarrow> (error + bool) \<times> event list" where
  "input_entries_exist_in_data_tables tool_data_client data_tables input_dict tr =
     (let value_entry = get_value_from_inputs input_dict;
          name_entry = get_name_from_inputs input_dict
      in if \<not> truthy value_entry \<and> \<not> truthy name_entry then (Inr False, tr)
         else data_tables_loop tool_data_client data_tables value_entry name_entry tr)"

section \<open>Item lists and templates\<close>

text \<open>
  The values that \<^verbatim>\<open>yaml.load\<close> and \<^verbatim>\<open>json.loads\<close> produce for the \<^verbatim>\<open>items\<close> and
  \<^verbatim>\<open>genomes\<close> fields (floats left out), with Python's \<^verbatim>\<open>bool()\<close> on them.
\<close>

datatype pyval =
    PNone
  | PBool bool
  | PInt int
  | PStr string
  | PList "pyval list"
  | PDict "(string \<times> pyval) list"

fun py_bool :: "pyval \<Rightarrow> bool" where
  "py_bool PNone = False"
| "py_bool (PBool b) = b"
| "py_bool (PInt i) = (i \<noteq> 0)"
| "py_bool (PStr s) = (s \<noteq> [])"
| "py_bool (PList xs) = (xs \<noteq> [])"
| "py_bool (PDict kvs) = (kvs \<noteq> [])"

text \<open>
  \<^verbatim>\<open>for item in items\<close>: a list gives its elements, a string its characters, a dict its
  keys; \<^verbatim>\<open>None\<close>, a bool or an int is not iterable (\<^verbatim>\<open>TypeError\<close>).
\<close>

fun py_iter :: "pyval \<Rightarrow> error + pyval list" where
  "py_iter (PList xs) = Inr xs"
| "py_iter (PStr s) = Inr (map (\<lambda>c. PStr [c]) s)"
| "py_iter (PDict kvs) = Inr (map (\<lambda>kv. PStr (fst kv)) kvs)"
| "py_iter PNone = Inl TypeError"
| "py_iter (PBool b) = Inl TypeError"
| "py_iter (PInt i) = Inl TypeError"

text \<open>
  The libraries \<^verbatim>\<open>jinja2\<close> and \<^verbatim>\<open>json\<close> are not part of the repository; the functions
  below take them as a parameter.  \<open>render L src ctx\<close> is
  \<^verbatim>\<open>Template(src).render(**ctx)\<close>.
\<close>

record libs =
  render :: "string \<Rightarrow> (string \<times> pyval) list \<Rightarrow> error + string"
  json_dumps :: "pyval \<Rightarrow> string"
  json_loads :: "string \<Rightarrow> error + pyval"

text \<open>\<^verbatim>\<open>s.strip(chars)\<close> for a single character.\<close>

definition strip :: "char \<Rightarrow> string \<Rightarrow> string" where
  "strip q s = rev (dropWhile (\<lambda>c. c = q) (rev (dropWhile (\<lambda>c. c = q) s)))"

text \<open>\<^verbatim>\<open>parse_items\<close> (lines 132-139); \<open>CHR 0x22\<close> is the double quote.\<close>

definition parse_items :: "libs \<Rightarrow> pyval \<Rightarrow> pyval \<Rightarrow> error + pyval" where
  "parse_items L items genomes =
     (if py_bool genomes then
        (case render L (json_dumps L items) [(''genomes'', PStr (json_dumps L genomes))] of
           Inl e \<Rightarrow> Inl e
         | Inr rendered_items \<Rightarrow> json_loads L (strip (CHR 0x22) rendered_items))
      else Inr items)"

section \<open>The orchestrator \<^verbatim>\<open>run_dm\<close>\<close>

text \<open>
  The loaded configuration (\<^verbatim>\<open>yaml.load\<close> is outside the model).  A field read with
  \<^verbatim>\<open>.get\<close> is an option, \<open>None\<close> for a missing key; \<^verbatim>\<open>dm['id']\<close> and
  \<^verbatim>\<open>dm['params']\<close> are read with a subscript and are plain fields.  Each element of
  \<^verbatim>\<open>params\<close> is a one-entry dict, kept as its (key, value) pair.
\<close>

record data_manager =
  dm_id :: string
  dm_params :: "(string \<times> string) list"
  dm_items :: "pyval option"
  dm_data_table_reload :: "string list option"

record config =
  conf_genomes :: "pyval option"
  conf_data_managers :: "data_manager list option"

record args =
  overwrite :: bool
  ignore_errors :: bool

record job_summary =
  n_finished_jobs :: int
  n_failed_jobs :: int
  n_skipped_jobs :: int

text \<open>The \<^verbatim>\<open>for param in params\<close> loop (lines 170-174).\<close>

fun params_loop :: "libs \<Rightarrow> (string \<times> string) list \<Rightarrow> pyval \<Rightarrow> inputs \<Rightarrow> error + inputs" where
  "params_loop L [] item inputs = Inr inputs"
| "params_loop L (param # rest) item inputs =
     (case render L (snd param) [(''item'', item)] of
        Inl e \<Rightarrow> Inl e
      | Inr v \<Rightarrow> params_loop L rest item (AList.update (fst param) v inputs))"

text \<open>Lines 183-185: dispatch one job and append it to \<^verbatim>\<open>job_list\<close>.\<close>

definition dispatch ::
  "galaxy \<Rightarrow> string \<Rightarrow> inputs \<Rightarrow> int \<times> job list \<Rightarrow> event list
     \<Rightarrow> (error + int \<times> job list) \<times> event list" where
  "dispatch gi tool_id inputs st tr =
     (case run_tool gi tr tool_id inputs of
        Inl e \<Rightarrow> (Inl e, tr @ [Run_tool tool_id inputs])
      | Inr j \<Rightarrow>
          (case first_output j of
             Inl e \<Rightarrow> (Inl e, tr @ [Run_tool tool_id inputs])
           | Inr out \<Rightarrow>
               (Inr (fst st, snd st @ [j]),
                tr @ [Run_tool tool_id inputs, Log INFO (Dispatched_job (hid out) tool_id inputs)])))"

text \<open>
  The body of \<^verbatim>\<open>for item in items\<close> (lines 165-185) on the pair
  (\<^verbatim>\<open>number_skipped_jobs\<close>, \<^verbatim>\<open>job_list\<close>).  In
  \<^verbatim>\<open>input_entries_exist_in_data_tables(...) and not args.overwrite\<close> the call is the left
  operand: it runs first, whatever \<^verbatim>\<open>args.overwrite\<close> is.
\<close>

definition process_item ::
  "libs \<Rightarrow> galaxy \<Rightarrow> args \<Rightarrow> data_manager \<Rightarrow> pyval \<Rightarrow> int \<times> job list \<Rightarrow> event list
     \<Rightarrow> (error + int \<times> job list) \<times> event list" where
  "process_item L gi a dm item st tr =
     (case params_loop L (dm_params dm) item [] of
        Inl e \<Rightarrow> (Inl e, tr)
      | Inr inputs \<Rightarrow>
          (let data_tables = (case dm_data_table_reload dm of None \<Rightarrow> [] | Some ts \<Rightarrow> ts)
           in case input_entries_exist_in_data_tables gi data_tables inputs tr of
                (Inl e, tr1) \<Rightarrow> (Inl e, tr1)
              | (Inr exist, tr1) \<Rightarrow>
                  if exist \<and> \<not> overwrite a
                  then (Inr (fst st + 1, snd st), tr1 @ [Log INFO (Already_run (dm_id dm) inputs)])
                  else dispatch gi (dm_id dm) inputs st tr1))"

fun items_loop ::
  "libs \<Rightarrow> galaxy \<Rightarrow> args \<Rightarrow> data_manager \<Rightarrow> pyval list \<Rightarrow> int \<times> job list \<Rightarrow> event list
     \<Rightarrow> (error + int \<times> job list) \<times> event list" where
  "items_loop L gi a dm [] st tr = (Inr st, tr)"
| "items_loop L gi a dm (item # rest) st tr =
     (case process_item L gi a dm item st tr of
        (Inl e, tr1) \<Rightarrow> (Inl e, tr1)
      | (Inr st1, tr1) \<Rightarrow> items_loop L gi a dm rest st1 tr1)"

text \<open>
  The running state of the \<^verbatim>\<open>for dm in conf.get('data_managers')\<close> loop:
  \<^verbatim>\<open>number_skipped_jobs\<close>, \<^verbatim>\<open>all_failed_jobs\<close>, \<^verbatim>\<open>all_finished_jobs\<close>.
\<close>

record run_state =
  number_skipped_jobs :: int
  all_failed_jobs :: "job list"
  all_finished_jobs :: "job list"

text \<open>
  One pass of the loop body (lines 162-194): resolve the items, process each, wait for the
  batch, apply the failure policy, accumulate.  \<open>None\<close> when \<^verbatim>\<open>wait\<close> never returns.
\<close>

definition run_step ::
  "libs \<Rightarrow> galaxy \<Rightarrow> args \<Rightarrow> pyval \<Rightarrow> data_manager \<Rightarrow> run_state \<Rightarrow> event list
     \<Rightarrow> ((error + run_state) \<times> event list) option" where
  "run_step L gi a genomes dm rs tr =
     (case parse_items L (case dm_items dm of None \<Rightarrow> PList [PStr []] | Some v \<Rightarrow> v) genomes of
        Inl e \<Rightarrow> Some (Inl e, tr)
      | Inr items \<Rightarrow>
          (case py_iter items of
             Inl e \<Rightarrow> Some (Inl e, tr)
           | Inr item_list \<Rightarrow>
               (case items_loop L gi a dm item_list (number_skipped_jobs rs, []) tr of
                  (Inl e, tr1) \<Rightarrow> Some (Inl e, tr1)
                | (Inr st, tr1) \<Rightarrow>
                    (case wait gi (snd st) tr1 of
                       None \<Rightarrow> None
                     | Some (Inl e, tr2) \<Rightarrow> Some (Inl e, tr2)
                     | Some (Inr (finished_jobs, failed_jobs), tr2) \<Rightarrow>
                         (let rs1 = \<lparr>number_skipped_jobs = fst st,
                                     all_failed_jobs = all_failed_jobs rs @ failed_jobs,
                                     all_finished_jobs = all_finished_jobs rs @ finished_jobs\<rparr>
                          in if failed_jobs \<noteq> [] then
                               (if \<not> ignore_errors a then Some (Inl NotAllJobsSuccessful, tr2)
                                else Some (Inr rs1, tr2 @ [Log ERROR Not_all_jobs_ignoring]))
                             else Some (Inr rs1, tr2))))))"

fun steps_loop ::
  "libs \<Rightarrow> galaxy \<Rightarrow> args \<Rightarrow> pyval \<Rightarrow> data_manager list \<Rightarrow> run_state \<Rightarrow> event list
     \<Rightarrow> ((error + run_state) \<times> event list) option" where
  "steps_loop L gi a genomes [] rs tr = Some (Inr rs, tr)"
| "steps_loop L gi a genomes (dm # rest) rs tr =
     (case run_step L gi a genomes dm rs tr of
        None \<Rightarrow> None
      | Some (Inl e, tr1) \<Rightarrow> Some (Inl e, tr1)
      | Some (Inr rs1, tr1) \<Rightarrow> steps_loop L gi a genomes rest rs1 tr1)"

text \<open>
  \<^verbatim>\<open>run_dm\<close> from the first remote call on (lines 150-199), on a loaded configuration.
  Iterating \<^verbatim>\<open>conf.get('data_managers')\<close> when the key is missing raises
  \<^verbatim>\<open>TypeError\<close>.
\<close>

definition run_dm ::
  "libs \<Rightarrow> galaxy \<Rightarrow> args \<Rightarrow> config \<Rightarrow> ((error + job_summary) \<times> event list) option" where
  "run_dm L gi a conf =
     (case get_genomes gi [] of
        Inl e \<Rightarrow> Some (Inl e, [Get_genomes])
      | Inr n \<Rightarrow>
          (let tr = [Get_genomes, Log INFO (Number_of_dbkeys n)];
               genomes = (case conf_genomes conf of None \<Rightarrow> PStr [] | Some g \<Rightarrow> g)
           in case conf_data_managers conf of
                None \<Rightarrow> Some (Inl TypeError, tr)
              | Some dms \<Rightarrow>
                  (case steps_loop L gi a genomes dms
                          \<lparr>number_skipped_jobs = 0, all_failed_jobs = [], all_finished_jobs = []\<rparr>
                          tr of
                     None \<Rightarrow> None
                   | Some (Inl e, tr1) \<Rightarrow> Some (Inl e, tr1)
                   | Some (Inr rs, tr1) \<Rightarrow>
                       Some (Inr \<lparr>n_finished_jobs = int (length (all_finished_jobs rs)),
                                  n_failed_jobs = int (length (all_failed_jobs rs)),
                                  n_skipped_jobs = number_skipped_jobs rs\<rparr>,
                             tr1))))"

section \<open>The template engine on plain placeholders\<close>

text \<open>
  \<^verbatim>\<open>Template(value).render(item=item)\<close> is jinja2 with its default settings: no
  \<^verbatim>\<open>undefined=\<close> argument is passed, so a name that the context does not bind is jinja2's
  default \<^verbatim>\<open>Undefined\<close>.  Printing it gives the empty string; reading an attribute of it
  raises \<^verbatim>\<open>UndefinedError\<close>.  jinja2 is not part of the repository.  The definitions
  below describe what it does on a fragment only: templates made of literal text and of
  placeholders \<^verbatim>\<open>{{ name }}\<close> and \<^verbatim>\<open>{{ name.attr }}\<close>.  A result \<open>Some (Inr s)\<close> is
  the rendered text, \<open>Some (Inl e)\<close> an exception, and \<open>None\<close> means that the template or
  the context is outside the fragment (statements, comments, other expressions, line breaks,
  an unclosed placeholder, printing a list or dict, an attribute of a bound value): there
  the description says nothing about jinja2.
\<close>

definition name_start_chars :: string where
  "name_start_chars = ''abcdefghijklmnopqrstuvwxyzABCDEFGHIJKLMNOPQRSTUVWXYZ_''"

definition name_chars :: string where
  "name_chars = name_start_chars @ ''0123456789''"

text \<open>Names that jinja2 reads as a literal, an operator or a built-in global.\<close>

definition reserved_names :: "string list" where
  "reserved_names =
     [''true'', ''false'', ''none'', ''True'', ''False'', ''None'',
      ''and'', ''or'', ''not'', ''in'', ''is'', ''if'', ''else'',
      ''self'', ''loop'', ''super'', ''caller'', ''varargs'', ''kwargs'',
      ''range'', ''dict'', ''lipsum'', ''cycler'', ''joiner'', ''namespace'']"

definition plain_name :: "string \<Rightarrow> bool" where
  "plain_name n =
     (case n of
        [] \<Rightarrow> False
      | c # cs \<Rightarrow> c \<in> set name_start_chars \<and> list_all (\<lambda>d. d \<in> set name_chars) cs
                  \<and> n \<notin> set reserved_names)"

text \<open>An attribute name: a plain name that does not start with an underscore.\<close>

definition attribute_name :: "string \<Rightarrow> bool" where
  "attribute_name a = (plain_name a \<and> take 1 a \<noteq> ''_'')"

definition line_break :: "char \<Rightarrow> bool" where
  "line_break c = (c = CHR 0x0A \<or> c = CHR 0x0D)"

text \<open>
  Python's \<^verbatim>\<open>str()\<close> on the scalar values, which is how a placeholder prints the value
  bound to its name: a string as it is, an int in decimal.
\<close>

fun decimal :: "nat \<Rightarrow> string" where
  "decimal n =
     (if n < 10 then [''0123456789'' ! n]
      else decimal (n div 10) @ [''0123456789'' ! (n mod 10)])"

fun py_str :: "pyval \<Rightarrow> string option" where
  "py_str (PStr s) = Some s"
| "py_str PNone = Some ''None''"
| "py_str (PBool b) = Some (if b then ''True'' else ''False'')"
| "py_str (PInt i) = Some (if i < 0 then CHR ''-'' # decimal (nat (- i)) else decimal (nat i))"
| "py_str (PList xs) = None"
| "py_str (PDict kvs) = None"

text \<open>
  The expression between \<^verbatim>\<open>{{\<close> and \<^verbatim>\<open>}}\<close>.  A plain name prints the value bound to
  it, and the empty string when the context does not bind it.  \<^verbatim>\<open>name.attr\<close> on a name
  that the context does not bind raises.
\<close>

definition placeholder :: "(string \<times> pyval) list \<Rightarrow> string \<Rightarrow> (error + string) option" where
  "placeholder ctx expr =
     (if plain_name expr then
        (case map_of ctx expr of
           None \<Rightarrow> Some (Inr [])
         | Some v \<Rightarrow> map_option Inr (py_str v))
      else
        (let n = takeWhile (\<lambda>c. c \<noteq> CHR ''.'') expr;
             a = drop (Suc (length n)) expr
         in if length n < length expr \<and> plain_name n \<and> attribute_name a \<and> map_of ctx n = None
            then Some (Inl UndefinedError)
            else None))"

text \<open>
  One part of a template followed by the rest of it.  The template is compiled as a whole
  before anything is rendered, so the result is known only when all of it is inside the
  fragment; the first exception wins.
\<close>

fun then_render :: "(error + string) option \<Rightarrow> (error + string) option \<Rightarrow> (error + string) option" where
  "then_render None rest = None"
| "then_render (Some part) None = None"
| "then_render (Some (Inl e)) (Some r) = Some (Inl e)"
| "then_render (Some (Inr s)) (Some (Inl e)) = Some (Inl e)"
| "then_render (Some (Inr s)) (Some (Inr r)) = Some (Inr (s @ r))"

text \<open>
  \<open>jinja_data\<close> reads literal text up to the next \<^verbatim>\<open>{{\<close>; \<open>jinja_variable\<close> collects
  the expression up to the next \<^verbatim>\<open>}}\<close>.
\<close>

fun jinja_data :: "(string \<times> pyval) list \<Rightarrow> string \<Rightarrow> (error + string) option"
and jinja_variable :: "(string \<times> pyval) list \<Rightarrow> string \<Rightarrow> string \<Rightarrow> (error + string) option" where
  "jinja_data ctx [] = Some (Inr [])"
| "jinja_data ctx [c] = (if line_break c then None else Some (Inr [c]))"
| "jinja_data ctx (c # d # cs) =
     (if c = CHR ''{'' \<and> d = CHR ''{'' then jinja_variable ctx [] cs
      else if c = CHR ''{'' \<and> (d = CHR ''%'' \<or> d = CHR ''#'') then None
      else if line_break c then None
      else then_render (Some (Inr [c])) (jinja_data ctx (d # cs)))"
| "jinja_variable ctx acc [] = None"
| "jinja_variable ctx acc [c] = None"
| "jinja_variable ctx acc (c # d # cs) =
     (if c = CHR ''}'' \<and> d = CHR ''}''
      then then_render (placeholder ctx (strip (CHR '' '') acc)) (jinja_data ctx cs)
      else jinja_variable ctx (acc @ [c]) (d # cs))"

definition jinja_render :: "string \<Rightarrow> (string \<times> pyval) list \<Rightarrow> (error + string) option" where
  "jinja_render src ctx = jinja_data ctx src"









section \<open>Scenarios\<close>

text \<open>A job handle with one output dataset.\<close>

definition handle :: "string \<Rightarrow> int \<Rightarrow> job" where
  "handle d h = \<lparr>outputs = [\<lparr>dataset_id = d, hid = h\<rparr>]\<rparr>"

fun is_sleep :: "event \<Rightarrow> bool" where
  "is_sleep (Sleep n) = True"
| "is_sleep _ = False"

fun is_run_tool :: "event \<Rightarrow> bool" where
  "is_run_tool (Run_tool t i) = True"
| "is_run_tool _ = False"

text \<open>
  A simulated Galaxy instance.  The state of a dataset depends on the number of sleeps so
  far (the poll cycle) and on the dataset; the k-th submitted job gets the output dataset
  \<^verbatim>\<open>d<k>\<close> with hid k; a data table exists when \<open>tables\<close> has it.
\<close>

definition scripted_gi :: "(nat \<Rightarrow> string \<Rightarrow> string) \<Rightarrow> (string \<times> data_table) list \<Rightarrow> galaxy" where
  "scripted_gi states tables =
     \<lparr>get_genomes = (\<lambda>tr. Inr 0),
      show_dataset = (\<lambda>tr d. Inr (states (length (filter is_sleep tr)) d)),
      show_data_table = (\<lambda>tr n.
         case map_of tables n of None \<Rightarrow> Inl (RemoteError ''not found'') | Some t \<Rightarrow> Inr t),
      run_tool = (\<lambda>tr tool_id inputs.
         let k = length (filter is_run_tool tr)
         in if k < 9 then Inr (handle [CHR ''d'', ''123456789'' ! k] (int (Suc k)))
            else Inl (RemoteError ''queue full''))\<rparr>"

text \<open>
  Three handles whose states are [pending, pending, ok] in the first poll cycle and
  [ok, error, ok] from the second on.
\<close>

definition convergence_states :: "nat \<Rightarrow> string \<Rightarrow> string" where
  "convergence_states cycle d =
     (if cycle = 0 then (if d = ''d3'' then ''ok'' else ''queued'')
      else (if d = ''d2'' then ''error'' else ''ok''))"

text \<open>Two jobs that both succeed, the first in the first poll cycle, the second in the next.\<close>

definition staggered_states :: "nat \<Rightarrow> string \<Rightarrow> string" where
  "staggered_states cycle d = (if cycle = 0 \<and> d = ''d2'' then ''running'' else ''ok'')"

text \<open>
  The first job fails in the first poll cycle, the second is still running then and succeeds
  in the next cycle; every later job succeeds at once.
\<close>

definition early_failure_states :: "nat \<Rightarrow> string \<Rightarrow> string" where
  "early_failure_states cycle d =
     (if d = ''d1'' then ''error''
      else if cycle = 0 \<and> d = ''d2'' then ''running'' else ''ok'')"

text \<open>A data table with one row, for the genome hg19.\<close>

definition all_fasta :: data_table where
  "all_fasta =
     \<lparr>columns = [''value'', ''dbkey'', ''name'', ''path''],
      table_fields = [[''hg19'', ''hg19'', ''Human (hg19)'', ''/data/hg19.fa'']]\<rparr>"

text \<open>A data table that has no value column.\<close>

definition no_value_table :: data_table where
  "no_value_table =
     \<lparr>columns = [''dbkey'', ''name'', ''path''],
      table_fields = [[''hg19'', ''Human (hg19)'', ''/data/hg19.fa'']]\<rparr>"

text \<open>
  The libraries for the scenarios.  The scenarios use templates inside the fragment only,
  and \<^verbatim>\<open>json\<close> is not reached when the configuration has no \<^verbatim>\<open>genomes\<close>; the
  answers outside the fragment and of \<^verbatim>\<open>json\<close> are placeholders that no scenario
  reaches.
\<close>

definition scenario_libs :: libs where
  "scenario_libs =
     \<lparr>render = (\<lambda>src ctx. case jinja_render src ctx of None \<Rightarrow> Inl OutsideFragment | Some r \<Rightarrow> r),
      json_dumps = (\<lambda>v. []),
      json_loads = (\<lambda>s. Inl (LibraryError ''json''))\<rparr>"

text \<open>A data manager with no parameters, run for the given items.\<close>

definition plain_dm :: "string \<Rightarrow> string list \<Rightarrow> data_manager" where
  "plain_dm tool_id items =
     \<lparr>dm_id = tool_id, dm_params = [], dm_items = Some (PList (map PStr items)),
      dm_data_table_reload = None\<rparr>"

text \<open>A data manager that fetches a genome by its address; no parameter is a candidate key.\<close>

definition fetch_dm :: data_manager where
  "fetch_dm =
     \<lparr>dm_id = ''data_manager_fetch_genome'',
      dm_params = [(''url'', ''ftp://host/{{item}}.fa'')],
      dm_items = Some (PList [PStr ''hg19'']),
      dm_data_table_reload = Some [''all_fasta'']\<rparr>"

text \<open>A data manager whose name parameter is the empty string.\<close>

definition unnamed_dm :: data_manager where
  "unnamed_dm =
     \<lparr>dm_id = ''data_manager_fetch_genome'',
      dm_params = [(''name'', []), (''sequence_name'', ''x'')],
      dm_items = None,
      dm_data_table_reload = Some [''all_fasta'']\<rparr>"

text \<open>A data manager that builds an index for each genome and records it in a table.\<close>

definition index_dm :: "string \<Rightarrow> data_manager" where
  "index_dm table =
     \<lparr>dm_id = ''bwa_mem_index_builder'',
      dm_params = [(''all_fasta_source'', ''{{item}}''), (''sequence_id'', ''{{item}}'')],
      dm_items = Some (PList [PStr ''hg19'']),
      dm_data_table_reload = Some [table]\<rparr>"

section \<open>Verified properties\<close>

subsection \<open>Helper lemmas\<close>

lemma wait_loop_Nil:
  "wait_loop gi [] bound tr =
     (case bound of
        None \<Rightarrow> Some (Inl UnboundLocalError, tr)
      | Some (finished_jobs, failed_jobs) \<Rightarrow> Some (Inr (finished_jobs, failed_jobs), tr))"
  by (subst wait_loop.simps) simp

lemma data_tables_loop_falsy_name:
  "\<not> truthy name_entry \<Longrightarrow>
   data_tables_loop g ts value_entry name_entry tr = data_tables_loop g ts value_entry PyFalse tr"
  by (induction ts arbitrary: tr) (simp_all split: prod.splits sum.splits bool.splits)

lemma name_chain_empty:
  "map_of input_dict ''name'' = Some [] \<Longrightarrow> get_name_from_inputs input_dict = PyStr []"
  "map_of input_dict ''name'' = None \<Longrightarrow> map_of input_dict ''sequence_name'' = Some [] \<Longrightarrow>
     get_name_from_inputs input_dict = PyStr []"
  by (simp_all add: get_name_from_inputs_def)

lemma value_chain_empty:
  "map_of input_dict ''value'' = Some [] \<Longrightarrow> get_value_from_inputs input_dict = PyStr []"
  "map_of input_dict ''value'' = None \<Longrightarrow> map_of input_dict ''sequence_id'' = Some [] \<Longrightarrow>
     get_value_from_inputs input_dict = PyStr []"
  "map_of input_dict ''value'' = None \<Longrightarrow> map_of input_dict ''sequence_id'' = None \<Longrightarrow>
     map_of input_dict ''dbkey'' = Some [] \<Longrightarrow> get_value_from_inputs input_dict = PyStr []"
  by (simp_all add: get_value_from_inputs_def)

lemma both_falsy_check:
  "\<not> truthy (get_value_from_inputs input_dict) \<Longrightarrow> \<not> truthy (get_name_from_inputs input_dict) \<Longrightarrow>
     input_entries_exist_in_data_tables tool_data_client data_tables input_dict tr = (Inr False, tr)"
  by (simp add: input_entries_exist_in_data_tables_def)

lemma both_falsy_dispatch:
  "\<not> truthy (get_value_from_inputs input_dict) \<Longrightarrow> \<not> truthy (get_name_from_inputs input_dict) \<Longrightarrow>
   params_loop L (dm_params dm) item [] = Inr input_dict \<Longrightarrow>
     process_item L gi a dm item st tr = dispatch gi (dm_id dm) input_dict st tr"
  by (simp add: process_item_def both_falsy_check)

lemma name_falsy_check:
  "truthy (get_value_from_inputs input_dict) \<Longrightarrow> \<not> truthy (get_name_from_inputs input_dict) \<Longrightarrow>
     input_entries_exist_in_data_tables tool_data_client data_tables input_dict tr =
     data_tables_loop tool_data_client data_tables (get_value_from_inputs input_dict) PyFalse tr"
  using data_tables_loop_falsy_name [of "get_name_from_inputs input_dict"]
  by (simp add: input_entries_exist_in_data_tables_def)

lemma items_loop_append:
  "items_loop L gi a dm (xs @ ys) st tr =
     (case items_loop L gi a dm xs st tr of
        (Inl e, tr1) \<Rightarrow> (Inl e, tr1)
      | (Inr st1, tr1) \<Rightarrow> items_loop L gi a dm ys st1 tr1)"
  by (induction xs arbitrary: st tr) (simp_all split: prod.splits sum.splits)

lemma steps_loop_append:
  "steps_loop L gi a genomes (xs @ ys) rs tr =
     (case steps_loop L gi a genomes xs rs tr of
        None \<Rightarrow> None
      | Some (Inl e, tr1) \<Rightarrow> Some (Inl e, tr1)
      | Some (Inr rs1, tr1) \<Rightarrow> steps_loop L gi a genomes ys rs1 tr1)"
  by (induction xs arbitrary: rs tr) (simp_all split: option.splits prod.splits sum.splits)

lemma index_absent: "x \<notin> set xs \<Longrightarrow> index xs x = Inl ValueError"
  by (induction xs) auto

lemma missing_table_raises:
  "show_data_table gi tr name = Inl x \<Longrightarrow>
   data_table_entry_exists gi name entry column tr =
     (Inl (TableDoesNotExist name), tr @ [Show_data_table name])"
  by (simp add: data_table_entry_exists_def)

lemma missing_column_raises:
  "show_data_table gi tr name = Inr t \<Longrightarrow> column \<notin> set (columns t) \<Longrightarrow>
   data_table_entry_exists gi name entry column tr = (Inl ValueError, tr @ [Show_data_table name])"
  by (simp add: data_table_entry_exists_def index_absent)

lemma process_item_overwrite:
  assumes "params_loop L (dm_params dm) item [] = Inr inputs"
      and "input_entries_exist_in_data_tables gi
             (case dm_data_table_reload dm of None \<Rightarrow> [] | Some ts \<Rightarrow> ts) inputs tr = (r, tr1)"
      and "overwrite a"
  shows "process_item L gi a dm item st tr =
           (case r of Inl e \<Rightarrow> (Inl e, tr1) | Inr exist \<Rightarrow> dispatch gi (dm_id dm) inputs st tr1)"
  using assms by (simp add: process_item_def split: sum.splits)

lemma process_item_check_raises:
  assumes "params_loop L (dm_params dm) item [] = Inr inputs"
      and "input_entries_exist_in_data_tables gi
             (case dm_data_table_reload dm of None \<Rightarrow> [] | Some ts \<Rightarrow> ts) inputs tr = (Inl e, tr1)"
  shows "process_item L gi a dm item st tr = (Inl e, tr1)"
  using assms by (simp add: process_item_def)

lemma items_loop_raises:
  assumes "items_loop L gi a dm items_before st0 tr0 = (Inr st, tr)"
      and "process_item L gi a dm item st tr = (Inl e, tr1)"
  shows "items_loop L gi a dm (items_before @ item # items_after) st0 tr0 = (Inl e, tr1)"
  using assms by (simp add: items_loop_append)

lemma run_step_raises:
  assumes "parse_items L (case dm_items dm of None \<Rightarrow> PList [PStr []] | Some v \<Rightarrow> v) genomes = Inr items"
      and "py_iter items = Inr item_list"
      and "items_loop L gi a dm item_list (number_skipped_jobs rs, []) tr = (Inl e, tr1)"
  shows "run_step L gi a genomes dm rs tr = Some (Inl e, tr1)"
  using assms by (simp add: run_step_def)

lemma steps_loop_raises:
  assumes "steps_loop L gi a genomes dms_before rs0 tr0 = Some (Inr rs, tr)"
      and "run_step L gi a genomes dm rs tr = Some (Inl e, tr1)"
  shows "steps_loop L gi a genomes (dms_before @ dm # dms_after) rs0 tr0 = Some (Inl e, tr1)"
  using assms by (simp add: steps_loop_append)

lemma run_dm_raises:
  assumes "get_genomes gi [] = Inr n"
      and "conf_data_managers conf = Some dms"
      and "steps_loop L gi a (case conf_genomes conf of None \<Rightarrow> PStr [] | Some g \<Rightarrow> g) dms
             \<lparr>number_skipped_jobs = 0, all_failed_jobs = [], all_finished_jobs = []\<rparr>
             [Get_genomes, Log INFO (Number_of_dbkeys n)] = Some (Inl e, tr1)"
  shows "run_dm L gi a conf = Some (Inl e, tr1)"
  using assms by (simp add: run_dm_def)

lemma dispatch_skipped:
  "dispatch gi tool_id inputs st tr = (Inr st1, tr1) \<Longrightarrow> fst st1 = fst st"
  by (auto simp: dispatch_def split: sum.splits)

lemma process_item_skipped_grows:
  "process_item L gi a dm item st tr = (Inr st1, tr1) \<Longrightarrow> fst st \<le> fst st1"
  by (auto simp: process_item_def Let_def split: sum.splits prod.splits if_splits
           dest: dispatch_skipped)

lemma items_loop_skipped_grows:
  "items_loop L gi a dm item_list st tr = (Inr st1, tr1) \<Longrightarrow> fst st \<le> fst st1"
proof (induction item_list arbitrary: st tr)
  case Nil
  then show ?case by simp
next
  case (Cons item rest)
  from Cons.prems obtain st2 tr2 where
    1: "process_item L gi a dm item st tr = (Inr st2, tr2)" and
    2: "items_loop L gi a dm rest st2 tr2 = (Inr st1, tr1)"
    by (auto split: prod.splits sum.splits)
  from process_item_skipped_grows [OF 1] Cons.IH [OF 2] show ?case by simp
qed






















subsection \<open>The completion poller\<close>

text \<open>
  C1 (the code departs from the claim).  Three handles with dataset states
  [pending, pending, ok] in the first poll cycle and [ok, error, ok] in the second.  The
  poller makes two cycles with one sleep of 30 between them, as claimed, but what it returns
  is only what the last cycle saw: the handle that was ok in the first cycle (d3) is in
  neither list, and the handle in state error (d2) is in the finished list as well as in the
  failed list.
\<close>

theorem wait_returns_last_cycle_only:
  "wait (scripted_gi convergence_states [])
        [handle ''d1'' 1, handle ''d2'' 2, handle ''d3'' 3] [] =
   Some (Inr ([handle ''d1'' 1, handle ''d2'' 2], [handle ''d2'' 2]),
         [Show_dataset ''d1'', Log DEBUG (Job_still_running 1),
          Show_dataset ''d2'', Log DEBUG (Job_still_running 2),
          Show_dataset ''d3'', Log INFO (Job_finished 3 ''ok''), Log DEBUG (Job_still_running 3),
          Sleep 30,
          Show_dataset ''d1'', Log INFO (Job_finished 1 ''ok''), Log DEBUG (Job_still_running 1),
          Show_dataset ''d2'', Log ERROR (Job_finished 2 ''error'')])"
  by code_simp

text \<open>
  C2 (the code departs from the claim).  On an empty job list the loop body never runs, so
  \<^verbatim>\<open>finished_jobs\<close> and \<^verbatim>\<open>failed_jobs\<close> are unbound at the \<^verbatim>\<open>return\<close>: the call
  raises \<^verbatim>\<open>UnboundLocalError\<close> instead of returning two empty lists.  It does so at once,
  with no poll and no sleep (the trace is unchanged).
\<close>

theorem wait_empty_list_unbound:
  "wait gi [] tr = Some (Inl UnboundLocalError, tr)"
  by (simp add: wait_def wait_loop_Nil)

text \<open>
  The empty list is what \<^verbatim>\<open>run_dm\<close> passes when every item of a step is skipped: a run
  whose only item is already in the data table ends with \<^verbatim>\<open>UnboundLocalError\<close>, not
  with a summary.
\<close>

lemma run_dm_all_skipped_raises:
  "run_dm scenario_libs (scripted_gi staggered_states [(''bwa_mem_indexes'', all_fasta)])
     \<lparr>overwrite = False, ignore_errors = False\<rparr>
     \<lparr>conf_genomes = None, conf_data_managers = Some [index_dm ''bwa_mem_indexes'']\<rparr> =
   Some (Inl UnboundLocalError,
         [Get_genomes, Log INFO (Number_of_dbkeys 0), Show_data_table ''bwa_mem_indexes'',
          Log INFO (Already_run ''bwa_mem_index_builder''
                      [(''all_fasta_source'', ''hg19''), (''sequence_id'', ''hg19'')])])"
  by code_simp

subsection \<open>The run summary and the failure policy\<close>

text \<open>
  The three running counts never decrease over a step, nor over any number of steps.
\<close>

lemma run_step_counts_grow:
  assumes "run_step L gi a genomes dm rs tr = Some (Inr rs1, tr1)"
  shows "number_skipped_jobs rs \<le> number_skipped_jobs rs1
       \<and> length (all_failed_jobs rs) \<le> length (all_failed_jobs rs1)
       \<and> length (all_finished_jobs rs) \<le> length (all_finished_jobs rs1)"
  using assms
  by (auto simp: run_step_def Let_def split: sum.splits prod.splits option.splits if_splits
           dest: items_loop_skipped_grows)

lemma steps_loop_counts_grow:
  "steps_loop L gi a genomes dms rs tr = Some (Inr rs1, tr1) \<Longrightarrow>
     number_skipped_jobs rs \<le> number_skipped_jobs rs1
   \<and> length (all_failed_jobs rs) \<le> length (all_failed_jobs rs1)
   \<and> length (all_finished_jobs rs) \<le> length (all_finished_jobs rs1)"
proof (induction dms arbitrary: rs tr)
  case Nil
  then show ?case by simp
next
  case (Cons dm rest)
  from Cons.prems obtain rs2 tr2 where
    1: "run_step L gi a genomes dm rs tr = Some (Inr rs2, tr2)" and
    2: "steps_loop L gi a genomes rest rs2 tr2 = Some (Inr rs1, tr1)"
    by (auto split: option.splits prod.splits sum.splits)
  from run_step_counts_grow [OF 1] Cons.IH [OF 2] show ?case by simp
qed

text \<open>
  When the lists that \<^verbatim>\<open>wait\<close> returns do hold a failed job and ignore-failures is
  off, the step raises and no later step runs.
\<close>

lemma run_step_aborts_on_reported_failure:
  assumes "parse_items L (case dm_items dm of None \<Rightarrow> PList [PStr []] | Some v \<Rightarrow> v) genomes
             = Inr items"
      and "py_iter items = Inr item_list"
      and "items_loop L gi a dm item_list (number_skipped_jobs rs, []) tr = (Inr st, tr1)"
      and "wait gi (snd st) tr1 = Some (Inr (finished, failed), tr2)"
      and "failed \<noteq> []"
      and "\<not> ignore_errors a"
  shows "run_step L gi a genomes dm rs tr = Some (Inl NotAllJobsSuccessful, tr2)"
  using assms by (simp add: run_step_def)

text \<open>
  C3 (the code departs from the claim).  One step dispatches two jobs; both succeed, the
  first in the first poll cycle and the second in the next.  The run ends normally, and its
  summary counts one finished job, no failed and no skipped one: the sum of the three counts
  is 1 for 2 dispatched jobs.
\<close>

theorem run_dm_summary_omits_earlier_cycle:
  "run_dm L (scripted_gi staggered_states []) \<lparr>overwrite = False, ignore_errors = False\<rparr>
     \<lparr>conf_genomes = None,
      conf_data_managers = Some [plain_dm ''fetch_genome'' [''hg19'', ''mm10'']]\<rparr> =
   Some (Inr \<lparr>n_finished_jobs = 1, n_failed_jobs = 0, n_skipped_jobs = 0\<rparr>,
         [Get_genomes, Log INFO (Number_of_dbkeys 0),
          Run_tool ''fetch_genome'' [], Log INFO (Dispatched_job 1 ''fetch_genome'' []),
          Run_tool ''fetch_genome'' [], Log INFO (Dispatched_job 2 ''fetch_genome'' []),
          Show_dataset ''d1'', Log INFO (Job_finished 1 ''ok''), Log DEBUG (Job_still_running 1),
          Show_dataset ''d2'', Log DEBUG (Job_still_running 2),
          Sleep 30,
          Show_dataset ''d2'', Log INFO (Job_finished 2 ''ok''), Log DEBUG (Job_still_running 2)])"
  by code_simp

text \<open>
  C4 (the code departs from the claim).  The first step dispatches two jobs; the first
  fails in the first poll cycle, the second succeeds in the next cycle.  Ignore-failures is
  off.  The run does not abort: the job of the second step is dispatched after the failure
  was observed, and the run ends normally with a summary that has no failed job.
\<close>

theorem run_dm_early_failure_not_aborted:
  "run_dm L (scripted_gi early_failure_states []) \<lparr>overwrite = False, ignore_errors = False\<rparr>
     \<lparr>conf_genomes = None,
      conf_data_managers =
        Some [plain_dm ''fetch_genome'' [''hg19'', ''mm10''], plain_dm ''build_index'' [''hg19'']]\<rparr> =
   Some (Inr \<lparr>n_finished_jobs = 2, n_failed_jobs = 0, n_skipped_jobs = 0\<rparr>,
         [Get_genomes, Log INFO (Number_of_dbkeys 0),
          Run_tool ''fetch_genome'' [], Log INFO (Dispatched_job 1 ''fetch_genome'' []),
          Run_tool ''fetch_genome'' [], Log INFO (Dispatched_job 2 ''fetch_genome'' []),
          Show_dataset ''d1'', Log ERROR (Job_finished 1 ''error''),
          Show_dataset ''d2'', Log DEBUG (Job_still_running 2),
          Sleep 30,
          Show_dataset ''d2'', Log INFO (Job_finished 2 ''ok''), Log DEBUG (Job_still_running 2),
          Run_tool ''build_index'' [], Log INFO (Dispatched_job 3 ''build_index'' []),
          Show_dataset ''d3'', Log INFO (Job_finished 3 ''ok''), Log DEBUG (Job_still_running 3)])"
  by code_simp

text \<open>
  A second way in which the counts depart from the jobs: with ignore-failures on, a single
  job that fails is counted as finished and as failed.
\<close>

lemma run_dm_failed_job_counted_twice:
  "run_dm L (scripted_gi early_failure_states []) \<lparr>overwrite = False, ignore_errors = True\<rparr>
     \<lparr>conf_genomes = None, conf_data_managers = Some [plain_dm ''fetch_genome'' [''hg19'']]\<rparr> =
   Some (Inr \<lparr>n_finished_jobs = 1, n_failed_jobs = 1, n_skipped_jobs = 0\<rparr>,
         [Get_genomes, Log INFO (Number_of_dbkeys 0),
          Run_tool ''fetch_genome'' [], Log INFO (Dispatched_job 1 ''fetch_genome'' []),
          Show_dataset ''d1'', Log ERROR (Job_finished 1 ''error''),
          Log ERROR Not_all_jobs_ignoring])"
  by code_simp

subsection \<open>The idempotency checker\<close>

text \<open>
  C5.  When the input dict has none of the keys name, sequence_name, value, sequence_id and
  dbkey, \<^verbatim>\<open>input_entries_exist_in_data_tables\<close> returns \<^verbatim>\<open>False\<close> for every client and
  every list of tables, without a remote call; and \<^verbatim>\<open>run_dm\<close> then dispatches the job,
  whatever the options are.
\<close>

theorem no_candidate_key_not_satisfied:
  assumes "map_of input_dict ''name'' = None"
      and "map_of input_dict ''sequence_name'' = None"
      and "map_of input_dict ''value'' = None"
      and "map_of input_dict ''sequence_id'' = None"
      and "map_of input_dict ''dbkey'' = None"
  shows "input_entries_exist_in_data_tables tool_data_client data_tables input_dict tr
           = (Inr False, tr)
       \<and> (params_loop L (dm_params dm) item [] = Inr input_dict \<longrightarrow>
            process_item L gi a dm item st tr = dispatch gi (dm_id dm) input_dict st tr)"
proof -
  have v: "get_value_from_inputs input_dict = PyFalse"
    using assms by (simp add: get_value_from_inputs_def)
  have n: "get_name_from_inputs input_dict = PyFalse"
    using assms by (simp add: get_name_from_inputs_def)
  have chk: "input_entries_exist_in_data_tables g ts input_dict tr = (Inr False, tr)" for g ts
    by (simp add: input_entries_exist_in_data_tables_def v n)
  show ?thesis
    by (simp add: chk process_item_def)
qed

theorem no_candidate_key_not_satisfied_witness:
  "map_of [(''url'', ''ftp://host/hg19.fa'')] ''name'' = None
 \<and> map_of [(''url'', ''ftp://host/hg19.fa'')] ''sequence_name'' = None
 \<and> map_of [(''url'', ''ftp://host/hg19.fa'')] ''value'' = None
 \<and> map_of [(''url'', ''ftp://host/hg19.fa'')] ''sequence_id'' = None
 \<and> map_of [(''url'', ''ftp://host/hg19.fa'')] ''dbkey'' = None
 \<and> input_entries_exist_in_data_tables (scripted_gi staggered_states [(''all_fasta'', all_fasta)])
      [''all_fasta''] [(''url'', ''ftp://host/hg19.fa'')] [] = (Inr False, [])
 \<and> params_loop scenario_libs (dm_params fetch_dm) (PStr ''hg19'') [] =
      Inr [(''url'', ''ftp://host/hg19.fa'')]
 \<and> process_item scenario_libs (scripted_gi staggered_states [(''all_fasta'', all_fasta)])
      \<lparr>overwrite = False, ignore_errors = False\<rparr> fetch_dm (PStr ''hg19'') (0, []) [] =
     (Inr (0, [handle ''d1'' 1]),
      [Run_tool ''data_manager_fetch_genome'' [(''url'', ''ftp://host/hg19.fa'')],
       Log INFO (Dispatched_job 1 ''data_manager_fetch_genome'' [(''url'', ''ftp://host/hg19.fa'')])])"
proof -
  let ?d = "[(''url'', ''ftp://host/hg19.fa'')]"
  let ?gi = "scripted_gi staggered_states [(''all_fasta'', all_fasta)]"
  have keys: "map_of ?d ''name'' = None" "map_of ?d ''sequence_name'' = None"
    "map_of ?d ''value'' = None" "map_of ?d ''sequence_id'' = None" "map_of ?d ''dbkey'' = None"
    by simp_all
  have params: "params_loop scenario_libs (dm_params fetch_dm) (PStr ''hg19'') [] = Inr ?d"
    by code_simp
  have disp: "dispatch ?gi (dm_id fetch_dm) ?d (0, []) [] =
     (Inr (0, [handle ''d1'' 1]),
      [Run_tool ''data_manager_fetch_genome'' ?d,
       Log INFO (Dispatched_job 1 ''data_manager_fetch_genome'' ?d)])"
    by code_simp
  from no_candidate_key_not_satisfied
         [OF keys, of ?gi "[''all_fasta'']" "[]" scenario_libs fetch_dm "PStr ''hg19''" ?gi
            "\<lparr>overwrite = False, ignore_errors = False\<rparr>" "(0, [])"]
  show ?thesis
    using keys params disp by simp
qed

text \<open>
  C6.  The precedence of the candidate keys is strict.  When name is in the dict, its value
  is the name candidate, whatever sequence_name is bound to; when value is in the dict, its
  value is the value candidate, whatever sequence_id and dbkey are bound to; when value is
  missing and sequence_id is in the dict, the value of sequence_id is the candidate,
  whatever dbkey is bound to.
\<close>

theorem candidate_key_precedence:
  "(map_of input_dict ''name'' = Some v \<longrightarrow>
      get_name_from_inputs input_dict = PyStr v
    \<and> get_name_from_inputs (AList.update ''sequence_name'' w input_dict) = PyStr v)
 \<and> (map_of input_dict ''value'' = Some v \<longrightarrow>
      get_value_from_inputs input_dict = PyStr v
    \<and> get_value_from_inputs
        (AList.update ''sequence_id'' w (AList.update ''dbkey'' u input_dict)) = PyStr v)
 \<and> (map_of input_dict ''value'' = None \<and> map_of input_dict ''sequence_id'' = Some v \<longrightarrow>
      get_value_from_inputs input_dict = PyStr v
    \<and> get_value_from_inputs (AList.update ''dbkey'' u input_dict) = PyStr v)"
  by (simp add: get_name_from_inputs_def get_value_from_inputs_def update_conv')

theorem candidate_key_precedence_witness:
  "map_of [(''sequence_name'', ''Human''), (''name'', ''hg19 full'')] ''name'' = Some ''hg19 full''
 \<and> get_name_from_inputs [(''sequence_name'', ''Human''), (''name'', ''hg19 full'')] = PyStr ''hg19 full''
 \<and> map_of [(''dbkey'', ''k''), (''sequence_id'', ''s''), (''value'', ''v'')] ''value'' = Some ''v''
 \<and> get_value_from_inputs [(''dbkey'', ''k''), (''sequence_id'', ''s''), (''value'', ''v'')] = PyStr ''v''
 \<and> map_of [(''dbkey'', ''k''), (''sequence_id'', ''s'')] ''value'' = None
 \<and> map_of [(''dbkey'', ''k''), (''sequence_id'', ''s'')] ''sequence_id'' = Some ''s''
 \<and> get_value_from_inputs [(''dbkey'', ''k''), (''sequence_id'', ''s'')] = PyStr ''s''"
  using candidate_key_precedence
          [of "[(''sequence_name'', ''Human''), (''name'', ''hg19 full'')]" "''hg19 full''"]
        candidate_key_precedence
          [of "[(''dbkey'', ''k''), (''sequence_id'', ''s''), (''value'', ''v'')]" "''v''"]
        candidate_key_precedence
          [of "[(''dbkey'', ''k''), (''sequence_id'', ''s'')]" "''s''"]
  by simp

text \<open>
  C10.  A candidate key bound to the empty string gives a falsy candidate.  When name is
  bound to the empty string the name candidate is the empty string, whatever sequence_name
  is bound to, and likewise down both chains.  When both candidates are falsy the check
  returns \<^verbatim>\<open>False\<close> with no remote call and the job is dispatched; when only the name
  candidate is falsy, the tables are checked as if there were no name candidate.
\<close>

theorem empty_string_candidate_is_falsy:
  "(map_of input_dict ''name'' = Some [] \<longrightarrow>
      get_name_from_inputs input_dict = PyStr [] \<and> \<not> truthy (get_name_from_inputs input_dict))
 \<and> (map_of input_dict ''name'' = None \<and> map_of input_dict ''sequence_name'' = Some [] \<longrightarrow>
      \<not> truthy (get_name_from_inputs input_dict))
 \<and> (map_of input_dict ''value'' = Some [] \<longrightarrow>
      get_value_from_inputs input_dict = PyStr [] \<and> \<not> truthy (get_value_from_inputs input_dict))
 \<and> (map_of input_dict ''value'' = None \<and> map_of input_dict ''sequence_id'' = Some [] \<longrightarrow>
      \<not> truthy (get_value_from_inputs input_dict))
 \<and> (map_of input_dict ''value'' = None \<and> map_of input_dict ''sequence_id'' = None
      \<and> map_of input_dict ''dbkey'' = Some [] \<longrightarrow>
      \<not> truthy (get_value_from_inputs input_dict))
 \<and> (\<not> truthy (get_value_from_inputs input_dict) \<and> \<not> truthy (get_name_from_inputs input_dict) \<longrightarrow>
      input_entries_exist_in_data_tables tool_data_client data_tables input_dict tr = (Inr False, tr)
    \<and> (params_loop L (dm_params dm) item [] = Inr input_dict \<longrightarrow>
         process_item L gi a dm item st tr = dispatch gi (dm_id dm) input_dict st tr))
 \<and> (truthy (get_value_from_inputs input_dict) \<and> \<not> truthy (get_name_from_inputs input_dict) \<longrightarrow>
      input_entries_exist_in_data_tables tool_data_client data_tables input_dict tr =
      data_tables_loop tool_data_client data_tables (get_value_from_inputs input_dict) PyFalse tr)"
proof (intro conjI impI)
  show "get_name_from_inputs input_dict = PyStr []" if "map_of input_dict ''name'' = Some []"
    using that by (rule name_chain_empty(1))
  show "\<not> truthy (get_name_from_inputs input_dict)" if "map_of input_dict ''name'' = Some []"
    using name_chain_empty(1) [OF that] by simp
  show "\<not> truthy (get_name_from_inputs input_dict)"
    if "map_of input_dict ''name'' = None \<and> map_of input_dict ''sequence_name'' = Some []"
    using name_chain_empty(2) [of input_dict] that by simp
  show "get_value_from_inputs input_dict = PyStr []" if "map_of input_dict ''value'' = Some []"
    using that by (rule value_chain_empty(1))
  show "\<not> truthy (get_value_from_inputs input_dict)" if "map_of input_dict ''value'' = Some []"
    using value_chain_empty(1) [OF that] by simp
  show "\<not> truthy (get_value_from_inputs input_dict)"
    if "map_of input_dict ''value'' = None \<and> map_of input_dict ''sequence_id'' = Some []"
    using value_chain_empty(2) [of input_dict] that by simp
  show "\<not> truthy (get_value_from_inputs input_dict)"
    if "map_of input_dict ''value'' = None \<and> map_of input_dict ''sequence_id'' = None
        \<and> map_of input_dict ''dbkey'' = Some []"
    using value_chain_empty(3) [of input_dict] that by simp
  show "input_entries_exist_in_data_tables tool_data_client data_tables input_dict tr = (Inr False, tr)"
    if "\<not> truthy (get_value_from_inputs input_dict) \<and> \<not> truthy (get_name_from_inputs input_dict)"
    using both_falsy_check [of input_dict] that by blast
  show "process_item L gi a dm item st tr = dispatch gi (dm_id dm) input_dict st tr"
    if "\<not> truthy (get_value_from_inputs input_dict) \<and> \<not> truthy (get_name_from_inputs input_dict)"
      and "params_loop L (dm_params dm) item [] = Inr input_dict"
    using both_falsy_dispatch [of input_dict L dm item] that by blast
  show "input_entries_exist_in_data_tables tool_data_client data_tables input_dict tr =
        data_tables_loop tool_data_client data_tables (get_value_from_inputs input_dict) PyFalse tr"
    if "truthy (get_value_from_inputs input_dict) \<and> \<not> truthy (get_name_from_inputs input_dict)"
    using name_falsy_check [of input_dict] that by blast
qed

theorem empty_string_candidate_is_falsy_witness:
  "map_of [(''name'', []), (''sequence_name'', ''x'')] ''name'' = Some []
 \<and> get_name_from_inputs [(''name'', []), (''sequence_name'', ''x'')] = PyStr []
 \<and> \<not> truthy (get_name_from_inputs [(''sequence_name'', [])])
 \<and> get_value_from_inputs [(''value'', []), (''sequence_id'', ''s'')] = PyStr []
 \<and> \<not> truthy (get_value_from_inputs [(''sequence_id'', []), (''dbkey'', ''k'')])
 \<and> \<not> truthy (get_value_from_inputs [(''dbkey'', [])])
 \<and> \<not> truthy (get_value_from_inputs [(''name'', []), (''sequence_name'', ''x'')])
 \<and> \<not> truthy (get_name_from_inputs [(''name'', []), (''sequence_name'', ''x'')])
 \<and> input_entries_exist_in_data_tables (scripted_gi staggered_states [(''all_fasta'', all_fasta)])
      [''all_fasta''] [(''name'', []), (''sequence_name'', ''x'')] [] = (Inr False, [])
 \<and> process_item scenario_libs (scripted_gi staggered_states [(''all_fasta'', all_fasta)])
      \<lparr>overwrite = False, ignore_errors = False\<rparr> unnamed_dm (PStr []) (0, []) [] =
     (Inr (0, [handle ''d1'' 1]),
      [Run_tool ''data_manager_fetch_genome'' [(''name'', []), (''sequence_name'', ''x'')],
       Log INFO (Dispatched_job 1 ''data_manager_fetch_genome''
                   [(''name'', []), (''sequence_name'', ''x'')])])
 \<and> truthy (get_value_from_inputs [(''name'', []), (''sequence_name'', ''x''), (''dbkey'', ''hg19'')])
 \<and> input_entries_exist_in_data_tables (scripted_gi staggered_states [(''all_fasta'', all_fasta)])
      [''all_fasta''] [(''name'', []), (''sequence_name'', ''x''), (''dbkey'', ''hg19'')] [] =
     (Inr True, [Show_data_table ''all_fasta''])"
proof -
  let ?d = "[(''name'', []), (''sequence_name'', ''x'')]"
  let ?dv = "[(''name'', []), (''sequence_name'', ''x''), (''dbkey'', ''hg19'')]"
  let ?gi = "scripted_gi staggered_states [(''all_fasta'', all_fasta)]"
  have d: "map_of ?d ''name'' = Some []"
    by simp
  have dval: "\<not> truthy (get_value_from_inputs ?d)"
    by (simp add: get_value_from_inputs_def)
  have params: "params_loop scenario_libs (dm_params unnamed_dm) (PStr []) [] = Inr ?d"
    by code_simp
  have disp: "dispatch ?gi (dm_id unnamed_dm) ?d (0, []) [] =
     (Inr (0, [handle ''d1'' 1]),
      [Run_tool ''data_manager_fetch_genome'' ?d,
       Log INFO (Dispatched_job 1 ''data_manager_fetch_genome'' ?d)])"
    by code_simp
  have dv: "map_of ?dv ''name'' = Some []" "truthy (get_value_from_inputs ?dv)"
    by (simp_all add: get_value_from_inputs_def)
  have loop: "data_tables_loop ?gi [''all_fasta''] (get_value_from_inputs ?dv) PyFalse [] =
                (Inr True, [Show_data_table ''all_fasta''])"
    by code_simp
  have a: "\<not> truthy (get_name_from_inputs [(''sequence_name'', [])])"
    using empty_string_candidate_is_falsy [of "[(''sequence_name'', [])]"] by simp
  have b: "get_value_from_inputs [(''value'', []), (''sequence_id'', ''s'')] = PyStr []"
    using empty_string_candidate_is_falsy [of "[(''value'', []), (''sequence_id'', ''s'')]"] by simp
  have c: "\<not> truthy (get_value_from_inputs [(''sequence_id'', []), (''dbkey'', ''k'')])"
    using empty_string_candidate_is_falsy [of "[(''sequence_id'', []), (''dbkey'', ''k'')]"] by simp
  have e: "\<not> truthy (get_value_from_inputs [(''dbkey'', [])])"
    using empty_string_candidate_is_falsy [of "[(''dbkey'', [])]"] by simp
  have f: "input_entries_exist_in_data_tables ?gi [''all_fasta''] ?dv [] =
             (Inr True, [Show_data_table ''all_fasta''])"
    using dv loop empty_string_candidate_is_falsy [of ?dv ?gi "[''all_fasta'']" "[]"] by simp
  from empty_string_candidate_is_falsy
         [of ?d ?gi "[''all_fasta'']" "[]" scenario_libs unnamed_dm "PStr []" ?gi
            "\<lparr>overwrite = False, ignore_errors = False\<rparr>" "(0, [])"]
  show ?thesis
    using d dval params disp dv(2) a b c e f by simp
qed

subsection \<open>Item lists\<close>

text \<open>
  C8.  With falsy \<^verbatim>\<open>genomes\<close> (the empty string that \<^verbatim>\<open>run_dm\<close> uses when the key is
  absent, an empty list or dict, \<^verbatim>\<open>None\<close>), \<^verbatim>\<open>parse_items\<close> returns the items unchanged,
  for every items value and whatever the template and JSON libraries would do.
\<close>

theorem parse_items_falsy_genomes:
  "\<not> py_bool genomes \<Longrightarrow> parse_items L items genomes = Inr items"
  by (simp add: parse_items_def)

theorem parse_items_falsy_genomes_witness:
  "\<not> py_bool (PStr [])
 \<and> parse_items scenario_libs (PList [PStr ''hg19'', PStr ''{{ genomes }}'']) (PStr []) =
     Inr (PList [PStr ''hg19'', PStr ''{{ genomes }}''])"
  using parse_items_falsy_genomes
          [of "PStr []" scenario_libs "PList [PStr ''hg19'', PStr ''{{ genomes }}'']"]
  by simp

subsection \<open>Template resolution\<close>




subsection \<open>The check under overwrite\<close>

text \<open>
  C9.  Take any run with the overwrite option set that reaches an item: the earlier steps
  and the earlier items of the step completed, and the item's parameters rendered to
  \<open>inputs\<close>.  Then the idempotency check runs on \<open>inputs\<close> from the trace \<open>tr\<close> reached
  so far; its remote table queries are in the trace \<open>tr1\<close> that the rest of the run
  continues from.  If the check returns a boolean, it is discarded and the job is
  dispatched; if the check raises (a missing table, a missing column), the whole run ends
  with that exception and nothing is dispatched after it.
\<close>

theorem overwrite_still_runs_check:
  assumes "overwrite a"
      and "get_genomes gi [] = Inr n"
      and "conf_data_managers conf = Some (dms_before @ dm # dms_after)"
      and "steps_loop L gi a (case conf_genomes conf of None \<Rightarrow> PStr [] | Some g \<Rightarrow> g) dms_before
             \<lparr>number_skipped_jobs = 0, all_failed_jobs = [], all_finished_jobs = []\<rparr>
             [Get_genomes, Log INFO (Number_of_dbkeys n)] = Some (Inr rs, tr0)"
      and "parse_items L (case dm_items dm of None \<Rightarrow> PList [PStr []] | Some v \<Rightarrow> v)
             (case conf_genomes conf of None \<Rightarrow> PStr [] | Some g \<Rightarrow> g) = Inr items"
      and "py_iter items = Inr (items_before @ item # items_after)"
      and "items_loop L gi a dm items_before (number_skipped_jobs rs, []) tr0 = (Inr st, tr)"
      and "params_loop L (dm_params dm) item [] = Inr inputs"
      and "input_entries_exist_in_data_tables gi
             (case dm_data_table_reload dm of None \<Rightarrow> [] | Some ts \<Rightarrow> ts) inputs tr = (r, tr1)"
  shows "process_item L gi a dm item st tr =
           (case r of Inl e \<Rightarrow> (Inl e, tr1) | Inr exist \<Rightarrow> dispatch gi (dm_id dm) inputs st tr1)
       \<and> (r = Inl e \<longrightarrow> run_dm L gi a conf = Some (Inl e, tr1))"
proof (intro conjI impI)
  show "process_item L gi a dm item st tr =
          (case r of Inl e \<Rightarrow> (Inl e, tr1) | Inr exist \<Rightarrow> dispatch gi (dm_id dm) inputs st tr1)"
    using assms(8,9,1) by (rule process_item_overwrite)
next
  assume r: "r = Inl e"
  have "process_item L gi a dm item st tr = (Inl e, tr1)"
    using assms(8) assms(9) [unfolded r] by (rule process_item_check_raises)
  with assms(7)
  have "items_loop L gi a dm (items_before @ item # items_after) (number_skipped_jobs rs, []) tr0
          = (Inl e, tr1)"
    by (rule items_loop_raises)
  with assms(5,6)
  have "run_step L gi a (case conf_genomes conf of None \<Rightarrow> PStr [] | Some g \<Rightarrow> g) dm rs tr0
          = Some (Inl e, tr1)"
    by (rule run_step_raises)
  with assms(4)
  have "steps_loop L gi a (case conf_genomes conf of None \<Rightarrow> PStr [] | Some g \<Rightarrow> g)
          (dms_before @ dm # dms_after)
          \<lparr>number_skipped_jobs = 0, all_failed_jobs = [], all_finished_jobs = []\<rparr>
          [Get_genomes, Log INFO (Number_of_dbkeys n)] = Some (Inl e, tr1)"
    by (rule steps_loop_raises)
  with assms(2,3) show "run_dm L gi a conf = Some (Inl e, tr1)"
    by (rule run_dm_raises)
qed

theorem overwrite_still_runs_check_witness:
  "overwrite \<lparr>overwrite = True, ignore_errors = False\<rparr>
 \<and> run_dm scenario_libs (scripted_gi staggered_states [])
      \<lparr>overwrite = True, ignore_errors = False\<rparr>
      \<lparr>conf_genomes = None, conf_data_managers = Some [index_dm ''bwa_mem_indexes'']\<rparr> =
    Some (Inl (TableDoesNotExist ''bwa_mem_indexes''),
          [Get_genomes, Log INFO (Number_of_dbkeys 0), Show_data_table ''bwa_mem_indexes''])"
proof -
  let ?L = scenario_libs
  let ?gi = "scripted_gi staggered_states []"
  let ?a = "\<lparr>overwrite = True, ignore_errors = False\<rparr>"
  let ?dm = "index_dm ''bwa_mem_indexes''"
  let ?conf = "\<lparr>conf_genomes = None, conf_data_managers = Some [?dm]\<rparr>"
  let ?rs = "\<lparr>number_skipped_jobs = 0, all_failed_jobs = [], all_finished_jobs = []\<rparr>"
  let ?tr = "[Get_genomes, Log INFO (Number_of_dbkeys 0)]"
  let ?inputs = "[(''all_fasta_source'', ''hg19''), (''sequence_id'', ''hg19'')]"
  have h1: "overwrite ?a"
    by simp
  have h2: "get_genomes ?gi [] = Inr 0"
    by (simp add: scripted_gi_def)
  have h3: "conf_data_managers ?conf = Some ([] @ ?dm # [])"
    by simp
  have h4: "steps_loop ?L ?gi ?a (case conf_genomes ?conf of None \<Rightarrow> PStr [] | Some g \<Rightarrow> g) []
              \<lparr>number_skipped_jobs = 0, all_failed_jobs = [], all_finished_jobs = []\<rparr>
              [Get_genomes, Log INFO (Number_of_dbkeys 0)] = Some (Inr ?rs, ?tr)"
    by simp
  have h5: "parse_items ?L (case dm_items ?dm of None \<Rightarrow> PList [PStr []] | Some v \<Rightarrow> v)
              (case conf_genomes ?conf of None \<Rightarrow> PStr [] | Some g \<Rightarrow> g) = Inr (PList [PStr ''hg19''])"
    by (simp add: parse_items_def index_dm_def)
  have h6: "py_iter (PList [PStr ''hg19'']) = Inr ([] @ PStr ''hg19'' # [])"
    by simp
  have h7: "items_loop ?L ?gi ?a ?dm [] (number_skipped_jobs ?rs, []) ?tr = (Inr (0, []), ?tr)"
    by simp
  have h8: "params_loop ?L (dm_params ?dm) (PStr ''hg19'') [] = Inr ?inputs"
    by code_simp
  have h9: "input_entries_exist_in_data_tables ?gi
              (case dm_data_table_reload ?dm of None \<Rightarrow> [] | Some ts \<Rightarrow> ts) ?inputs ?tr =
              (Inl (TableDoesNotExist ''bwa_mem_indexes''), ?tr @ [Show_data_table ''bwa_mem_indexes''])"
    by code_simp
  from overwrite_still_runs_check [OF h1 h2 h3 h4 h5 h6 h7 h8 h9, of "TableDoesNotExist ''bwa_mem_indexes''"]
  show ?thesis
    by simp
qed

text \<open>
  The same run against a table that exists but has no value column: \<^verbatim>\<open>list.index\<close>
  raises \<^verbatim>\<open>ValueError\<close>, which the \<^verbatim>\<open>except IndexError\<close> handler does not catch, and
  the run ends with it.
\<close>

lemma overwrite_missing_column_example:
  "run_dm scenario_libs (scripted_gi staggered_states [(''bwa_mem_indexes'', no_value_table)])
      \<lparr>overwrite = True, ignore_errors = False\<rparr>
      \<lparr>conf_genomes = None, conf_data_managers = Some [index_dm ''bwa_mem_indexes'']\<rparr> =
    Some (Inl ValueError,
          [Get_genomes, Log INFO (Number_of_dbkeys 0), Show_data_table ''bwa_mem_indexes''])"
  by code_simp

end
